theory Spec2Isabelle
  imports Complex_Main "HOL-Library.Multiset"
begin

section \<open>Data model of the gym log (src/src/App.tsx)\<close>

text \<open>
  JavaScript numbers are modelled as exact rationals: rounding, infinities and negative
  zero of IEEE doubles are outside the model. A numeric field that is absent from an
  object (\<open>undefined\<close>) is \<open>None\<close>; the source guards every read of \<open>reps\<close> and
  \<open>weight\<close> with \<open>|| 0\<close>, which is \<open>orZero\<close>.
\<close>

type_synonym number = rat

record SetEntry =
  reps :: "number option"
  weight :: "number option"

record ExerciseEntry =
  exerciseId :: string
  name :: string
  sets :: "SetEntry list"

record Workout =
  workoutId :: string
  date :: string
  workoutName :: string
  exercises :: "ExerciseEntry list"
  createdAt :: string

text \<open>\<open>x || 0\<close> on a numeric field: its falsy values are \<open>undefined\<close> and zero.\<close>

definition orZero :: "number option \<Rightarrow> number" where
  "orZero v = (case v of None \<Rightarrow> 0 | Some x \<Rightarrow> if x = 0 then 0 else x)"

definition createSet :: SetEntry where
  "createSet = \<lparr>reps = Some 10, weight = Some 0\<rparr>"

text \<open>\<open>crypto.randomUUID()\<close> is an external capability: the identifier is a parameter.\<close>

definition createExercise :: "string \<Rightarrow> ExerciseEntry" where
  "createExercise uuid = \<lparr>exerciseId = uuid, name = [], sets = [createSet]\<rparr>"

section \<open>Per-workout totals\<close>



text \<open>
  \<open>Array.prototype.reduce(f, init)\<close> is a left fold. The inner fold over the sets of one
  exercise is written out in \<open>sumWorkoutVolume\<close>, in \<open>sumWorkoutReps\<close> and again in the
  loop of the dashboard; it is named here.
\<close>

definition exerciseVolume :: "ExerciseEntry \<Rightarrow> number" where
  "exerciseVolume ex = foldl (\<lambda>s st. s + orZero (reps st) * orZero (weight st)) 0 (sets ex)"

definition exerciseReps :: "ExerciseEntry \<Rightarrow> number" where
  "exerciseReps ex = foldl (\<lambda>s st. s + orZero (reps st)) 0 (sets ex)"

definition sumWorkoutVolume :: "Workout \<Rightarrow> number" where
  "sumWorkoutVolume workout = foldl (\<lambda>total ex. total + exerciseVolume ex) 0 (exercises workout)"

definition sumWorkoutReps :: "Workout \<Rightarrow> number" where
  "sumWorkoutReps workout = foldl (\<lambda>total ex. total + exerciseReps ex) 0 (exercises workout)"

section \<open>Strings\<close>

text \<open>
  A character is an 8-bit code point (Latin-1). \<open>String.prototype.trim\<close> removes the
  ECMAScript white space and line terminators at both ends; in this range they are TAB,
  LF, VT, FF, CR, SPACE and NBSP. \<open>String.prototype.toLowerCase\<close> moves the capital
  letters of the range (A-Z, and 0xC0-0xDE without the multiplication sign 0xD7) up by 32.
\<close>

definition isWhiteSpace :: "char \<Rightarrow> bool" where
  "isWhiteSpace c \<longleftrightarrow>
     c \<in> set [CHR 0x09, CHR 0x0A, CHR 0x0B, CHR 0x0C, CHR 0x0D, CHR 0x20, CHR 0xA0]"

definition trim :: "string \<Rightarrow> string" where
  "trim s = rev (dropWhile isWhiteSpace (rev (dropWhile isWhiteSpace s)))"

definition lowerChar :: "char \<Rightarrow> char" where
  "lowerChar c = (let n = of_char c :: nat in
     if (65 \<le> n \<and> n \<le> 90) \<or> (192 \<le> n \<and> n \<le> 222 \<and> n \<noteq> 215)
     then char_of (n + 32) else c)"

definition toLowerCase :: "string \<Rightarrow> string" where
  "toLowerCase s = map lowerChar s"

section \<open>Array.prototype.sort with a comparator\<close>

text \<open>
  ECMAScript requires \<open>sort\<close> to be stable, so for a consistent comparator its result is
  determined: the elements in comparator order, equal ones in their input order. That
  result is computed here by a stable insertion sort. A comparator result that is NaN is
  read as \<open>+0\<close> by the sort; the comparators below return 0 there. With such results a
  comparator need not be consistent, and ECMAScript then leaves the order to the
  implementation. The insertion sort is one implementation; in a list whose neighbours all
  compare as equal it moves nothing.
\<close>

fun insertBy :: "('a \<Rightarrow> 'a \<Rightarrow> number) \<Rightarrow> 'a \<Rightarrow> 'a list \<Rightarrow> 'a list" where
  "insertBy cmp x [] = [x]"
| "insertBy cmp x (y # ys) = (if cmp x y \<le> 0 then x # y # ys else y # insertBy cmp x ys)"

definition sortBy :: "('a \<Rightarrow> 'a \<Rightarrow> number) \<Rightarrow> 'a list \<Rightarrow> 'a list" where
  "sortBy cmp xs = foldr (insertBy cmp) xs []"

section \<open>History order and the dashboard\<close>

text \<open>
  \<open>dayjs(d).valueOf()\<close> and \<open>dayjs(d).format('MMM D')\<close> belong to an external library
  and are parameters: \<open>valueOf\<close> gives the milliseconds of a date string, or \<open>None\<close>
  (NaN) for a string that is no date; \<open>format\<close> gives the display date.
\<close>

definition compareDates :: "(string \<Rightarrow> number option) \<Rightarrow> Workout \<Rightarrow> Workout \<Rightarrow> number" where
  "compareDates valueOf a b =
     (case valueOf (date b) of
        None \<Rightarrow> 0
      | Some vb \<Rightarrow> (case valueOf (date a) of None \<Rightarrow> 0 | Some va \<Rightarrow> vb - va))"

definition sortedWorkouts :: "(string \<Rightarrow> number option) \<Rightarrow> Workout list \<Rightarrow> Workout list" where
  "sortedWorkouts valueOf workouts = sortBy (compareDates valueOf) workouts"

record LinePoint =
  point_date :: string
  point_volume :: number
  point_reps :: number

definition lineData ::
  "(string \<Rightarrow> number option) \<Rightarrow> (string \<Rightarrow> string) \<Rightarrow> Workout list \<Rightarrow> LinePoint list" where
  "lineData valueOf format workouts =
     map (\<lambda>w. \<lparr>point_date = format (date w), point_volume = sumWorkoutVolume w,
                point_reps = sumWorkoutReps w\<rparr>)
       (rev (sortedWorkouts valueOf workouts))"

text \<open>
  The \<open>Map\<close> \<open>byExercise\<close> keeps its keys in insertion order: an association list,
  where \<open>set\<close> on a present key replaces the value in place and on a new key appends.
\<close>

record Group =
  groupName :: string
  totalVolume :: number
  totalReps :: number

fun mapSet :: "'k \<Rightarrow> 'v \<Rightarrow> ('k \<times> 'v) list \<Rightarrow> ('k \<times> 'v) list" where
  "mapSet k v [] = [(k, v)]"
| "mapSet k v ((k', v') # m) = (if k' = k then (k, v) # m else (k', v') # mapSet k v m)"

definition exerciseKey :: "ExerciseEntry \<Rightarrow> string" where
  "exerciseKey ex = toLowerCase (trim (name ex))"

text \<open>The body of the inner loop.\<close>

definition addToGroups :: "(string \<times> Group) list \<Rightarrow> ExerciseEntry \<Rightarrow> (string \<times> Group) list" where
  "addToGroups byEx ex =
     (let key = toLowerCase (trim (name ex)) in
      if key = [] then byEx
      else
        let current = (case map_of byEx key of
                         Some g \<Rightarrow> g
                       | None \<Rightarrow> \<lparr>groupName = trim (name ex), totalVolume = 0, totalReps = 0\<rparr>);
            current = current\<lparr>totalVolume := totalVolume current + exerciseVolume ex\<rparr>;
            current = current\<lparr>totalReps := totalReps current + exerciseReps ex\<rparr>
        in mapSet key current byEx)"

definition byExercise :: "Workout list \<Rightarrow> (string \<times> Group) list" where
  "byExercise workouts = foldl (\<lambda>byEx workout. foldl addToGroups byEx (exercises workout)) [] workouts"






text \<open>Every exercise entry of every workout, in the order the loops visit them.\<close>

definition allExercises :: "Workout list \<Rightarrow> ExerciseEntry list" where
  "allExercises workouts = concat (map exercises workouts)"

definition matching :: "string \<Rightarrow> Workout list \<Rightarrow> ExerciseEntry list" where
  "matching k workouts = filter (\<lambda>ex. exerciseKey ex = k) (allExercises workouts)"

section \<open>The store adapter\<close>

text \<open>
  \<open>localStorage\<close> is a map from keys to strings. \<open>JSON.parse\<close> and \<open>JSON.stringify\<close>
  are parameters: parsing raises \<open>SyntaxError\<close> or returns a value, which the source
  only inspects with \<open>Array.isArray\<close> before the unchecked cast to \<open>Workout[]\<close>. The
  cast checks nothing, so the elements of the array are of any type \<open>'a\<close>: workouts where
  the blob was written by this program, and whatever the array holds otherwise.
\<close>

datatype exn = SyntaxError

datatype 'a parsed = JsonArray "'a list" | JsonOther

definition STORAGE_KEY :: string where
  "STORAGE_KEY = ''gym-log-workouts-v1''"

text \<open>The \<open>try\<close> block of \<open>loadWorkouts\<close>; an exception is \<open>Inl\<close>.\<close>

definition loadWorkouts_try ::
  "(string \<Rightarrow> exn + 'a parsed) \<Rightarrow> (string \<rightharpoonup> string) \<Rightarrow> exn + 'a list" where
  "loadWorkouts_try parse storage =
     (case storage STORAGE_KEY of
        None \<Rightarrow> Inr []
      | Some raw \<Rightarrow>
          if raw = [] then Inr []
          else (case parse raw of
                  Inl e \<Rightarrow> Inl e
                | Inr (JsonArray items) \<Rightarrow> Inr items
                | Inr JsonOther \<Rightarrow> Inr []))"

text \<open>The whole function: \<open>catch\<close> turns every exception of the block into \<open>[]\<close>.\<close>

definition loadWorkouts ::
  "(string \<Rightarrow> exn + 'a parsed) \<Rightarrow> (string \<rightharpoonup> string) \<Rightarrow> exn + 'a list" where
  "loadWorkouts parse storage =
     (case loadWorkouts_try parse storage of Inl e \<Rightarrow> Inr [] | Inr items \<Rightarrow> Inr items)"

definition saveWorkouts ::
  "('a list \<Rightarrow> string) \<Rightarrow> 'a list \<Rightarrow> (string \<rightharpoonup> string) \<Rightarrow> (string \<rightharpoonup> string)" where
  "saveWorkouts stringify items storage = storage(STORAGE_KEY \<mapsto> stringify items)"



section \<open>The draft editor\<close>

text \<open>The functions passed to \<open>setExercises\<close>, from the previous list to the next.\<close>

definition updateExerciseName :: "string \<Rightarrow> string \<Rightarrow> ExerciseEntry list \<Rightarrow> ExerciseEntry list" where
  "updateExerciseName eid nm prev = map (\<lambda>ex. if exerciseId ex = eid then ex\<lparr>name := nm\<rparr> else ex) prev"

definition addExercise :: "string \<Rightarrow> ExerciseEntry list \<Rightarrow> ExerciseEntry list" where
  "addExercise uuid prev = prev @ [createExercise uuid]"

definition removeExercise :: "string \<Rightarrow> ExerciseEntry list \<Rightarrow> ExerciseEntry list" where
  "removeExercise eid prev =
     (if length prev = 1 then prev else filter (\<lambda>ex. exerciseId ex \<noteq> eid) prev)"

definition addSet :: "string \<Rightarrow> ExerciseEntry list \<Rightarrow> ExerciseEntry list" where
  "addSet eid prev =
     map (\<lambda>ex. if exerciseId ex = eid then ex\<lparr>sets := sets ex @ [createSet]\<rparr> else ex) prev"

definition removeSet :: "string \<Rightarrow> nat \<Rightarrow> ExerciseEntry list \<Rightarrow> ExerciseEntry list" where
  "removeSet eid setIndex prev =
     map (\<lambda>ex. if exerciseId ex \<noteq> eid then ex
               else if length (sets ex) = 1 then ex
               else ex\<lparr>sets := map snd (filter (\<lambda>(i, st). i \<noteq> setIndex) (enumerate 0 (sets ex)))\<rparr>)
       prev"

datatype Field = Reps | Weight

definition setField :: "Field \<Rightarrow> number \<Rightarrow> SetEntry \<Rightarrow> SetEntry" where
  "setField field v st = (case field of Reps \<Rightarrow> st\<lparr>reps := Some v\<rparr> | Weight \<Rightarrow> st\<lparr>weight := Some v\<rparr>)"

definition updateSet :: "string \<Rightarrow> nat \<Rightarrow> Field \<Rightarrow> number \<Rightarrow> ExerciseEntry list \<Rightarrow> ExerciseEntry list" where
  "updateSet eid setIndex field v prev =
     map (\<lambda>ex. if exerciseId ex \<noteq> eid then ex
               else ex\<lparr>sets := map (\<lambda>(i, st). if i = setIndex then setField field v st else st)
                                  (enumerate 0 (sets ex))\<rparr>)
       prev"

section \<open>The component state and its handlers\<close>

text \<open>
  The state of \<open>App\<close>: the tab, the persisted collection \<open>workouts\<close>, the draft (the
  source's \<open>date\<close>, \<open>workoutName\<close> and \<open>exercises\<close>), the browser's storage, and the
  messages shown by \<open>alert\<close>.
\<close>

datatype Tab = Log | History | Analytics

record State =
  tab :: Tab
  workouts :: "Workout list"
  draftDate :: string
  draftWorkoutName :: string
  draftExercises :: "ExerciseEntry list"
  localStorage :: "string \<rightharpoonup> string"
  alerts :: "string list"

text \<open>
  What one commit takes from outside: two results of \<open>crypto.randomUUID()\<close>,
  \<open>new Date().toISOString()\<close> and \<open>dayjs().format('YYYY-MM-DD')\<close>.
\<close>

record Env =
  newWorkoutId :: string
  nowISO :: string
  today :: string
  newExerciseId :: string

definition newWorkout :: "Env \<Rightarrow> State \<Rightarrow> Workout" where
  "newWorkout env s =
     \<lparr>workoutId = newWorkoutId env, date = draftDate s, workoutName = trim (draftWorkoutName s),
      exercises = draftExercises s, createdAt = nowISO env\<rparr>"

definition handleSaveWorkout :: "(Workout list \<Rightarrow> string) \<Rightarrow> Env \<Rightarrow> State \<Rightarrow> State" where
  "handleSaveWorkout stringify env s =
     (if trim (draftWorkoutName s) = [] then
        s\<lparr>alerts := alerts s @ [''Please enter a workout name.'']\<rparr>
      else if list_ex (\<lambda>ex. trim (name ex) = []) (draftExercises s) then
        s\<lparr>alerts := alerts s @ [''Please enter all exercise names.'']\<rparr>
      else
        let workout = newWorkout env s;
            next = workout # workouts s
        in s\<lparr>workouts := next,
             localStorage := saveWorkouts stringify next (localStorage s),
             draftWorkoutName := [],
             draftDate := today env,
             draftExercises := [createExercise (newExerciseId env)],
             tab := History\<rparr>)"

definition deleteWorkout :: "(Workout list \<Rightarrow> string) \<Rightarrow> string \<Rightarrow> State \<Rightarrow> State" where
  "deleteWorkout stringify wid s =
     (let next = filter (\<lambda>w. workoutId w \<noteq> wid) (workouts s)
      in s\<lparr>workouts := next, localStorage := saveWorkouts stringify next (localStorage s)\<rparr>)"

text \<open>The user's actions on the form, and a run of them from a state.\<close>

datatype Event =
    SetTab Tab
  | SetDate string
  | SetWorkoutName string
  | UpdateExerciseName string string
  | AddExercise string
  | RemoveExercise string
  | AddSet string
  | RemoveSet string nat
  | UpdateSet string nat Field number
  | SaveWorkout Env
  | DeleteWorkout string

fun handle :: "(Workout list \<Rightarrow> string) \<Rightarrow> Event \<Rightarrow> State \<Rightarrow> State" where
  "handle stringify (SetTab t) s = s\<lparr>tab := t\<rparr>"
| "handle stringify (SetDate d) s = s\<lparr>draftDate := d\<rparr>"
| "handle stringify (SetWorkoutName n) s = s\<lparr>draftWorkoutName := n\<rparr>"
| "handle stringify (UpdateExerciseName eid n) s =
     s\<lparr>draftExercises := updateExerciseName eid n (draftExercises s)\<rparr>"
| "handle stringify (AddExercise uuid) s = s\<lparr>draftExercises := addExercise uuid (draftExercises s)\<rparr>"
| "handle stringify (RemoveExercise eid) s = s\<lparr>draftExercises := removeExercise eid (draftExercises s)\<rparr>"
| "handle stringify (AddSet eid) s = s\<lparr>draftExercises := addSet eid (draftExercises s)\<rparr>"
| "handle stringify (RemoveSet eid i) s = s\<lparr>draftExercises := removeSet eid i (draftExercises s)\<rparr>"
| "handle stringify (UpdateSet eid i field v) s = s\<lparr>draftExercises := updateSet eid i field v (draftExercises s)\<rparr>"
| "handle stringify (SaveWorkout env) s = handleSaveWorkout stringify env s"
| "handle stringify (DeleteWorkout wid) s = deleteWorkout stringify wid s"

fun run :: "(Workout list \<Rightarrow> string) \<Rightarrow> Event list \<Rightarrow> State \<Rightarrow> State" where
  "run stringify [] s = s"
| "run stringify (e # es) s = run stringify es (handle stringify e s)"

text \<open>
  \<open>crypto.randomUUID()\<close> does not repeat an identifier: along a run, the identifier of
  each added exercise is none of those in the draft at that moment.
\<close>

fun freshIds :: "(Workout list \<Rightarrow> string) \<Rightarrow> Event list \<Rightarrow> State \<Rightarrow> bool" where
  "freshIds stringify [] s = True"
| "freshIds stringify (e # es) s =
     ((case e of AddExercise uuid \<Rightarrow> uuid \<notin> set (map exerciseId (draftExercises s)) | _ \<Rightarrow> True)
      \<and> freshIds stringify es (handle stringify e s))"

definition initialState :: "Workout list \<Rightarrow> (string \<rightharpoonup> string) \<Rightarrow> string \<Rightarrow> string \<Rightarrow> State" where
  "initialState items storage todayStr uuid =
     \<lparr>tab = Log, workouts = items, draftDate = todayStr, draftWorkoutName = [],
      draftExercises = [createExercise uuid], localStorage = storage, alerts = []\<rparr>"

section \<open>Predicates of the statements\<close>

text \<open>
  Every date of the list is one that \<open>dayjs\<close> can read. Workout \<open>a\<close> is dated no earlier
  than workout \<open>b\<close>, both dates being readable. A list is most recent first when no
  workout with a readable date stands before one with a later readable date; workouts whose
  date cannot be read are not constrained.
\<close>

definition validDates :: "(string \<Rightarrow> number option) \<Rightarrow> Workout list \<Rightarrow> bool" where
  "validDates valueOf ws \<longleftrightarrow> (\<forall>w \<in> set ws. valueOf (date w) \<noteq> None)"

definition notBefore :: "(string \<Rightarrow> number option) \<Rightarrow> Workout \<Rightarrow> Workout \<Rightarrow> bool" where
  "notBefore valueOf a b \<longleftrightarrow>
     (case valueOf (date a) of None \<Rightarrow> False
      | Some va \<Rightarrow> (case valueOf (date b) of None \<Rightarrow> False | Some vb \<Rightarrow> vb \<le> va))"

definition mostRecentFirst :: "(string \<Rightarrow> number option) \<Rightarrow> Workout list \<Rightarrow> bool" where
  "mostRecentFirst valueOf ws =
     sorted_wrt (\<lambda>a b. case valueOf (date a) of None \<Rightarrow> True
                       | Some va \<Rightarrow> (case valueOf (date b) of None \<Rightarrow> True | Some vb \<Rightarrow> vb \<le> va))
       ws"

text \<open>
  The point of the time series that a workout is mapped to. A list is chronological when
  no workout with a readable date stands before one with an earlier readable date;
  workouts whose date cannot be read are not constrained.
\<close>

definition pointOf :: "(string \<Rightarrow> string) \<Rightarrow> Workout \<Rightarrow> LinePoint" where
  "pointOf format w =
     \<lparr>point_date = format (date w),
      point_volume = (\<Sum>ex\<leftarrow>exercises w. \<Sum>st\<leftarrow>sets ex. orZero (reps st) * orZero (weight st)),
      point_reps = (\<Sum>ex\<leftarrow>exercises w. \<Sum>st\<leftarrow>sets ex. orZero (reps st))\<rparr>"

definition chronological :: "(string \<Rightarrow> number option) \<Rightarrow> Workout list \<Rightarrow> bool" where
  "chronological valueOf ws =
     sorted_wrt (\<lambda>a b. case valueOf (date a) of None \<Rightarrow> True
                       | Some va \<Rightarrow> (case valueOf (date b) of None \<Rightarrow> True | Some vb \<Rightarrow> va \<le> vb))
       ws"

text \<open>
  The group of a key, as the specification describes it: the entries of that key, their
  volumes and reps added up, shown under the trimmed name of the first of them.
\<close>

definition groupOf :: "string \<Rightarrow> ExerciseEntry list \<Rightarrow> Group option" where
  "groupOf k exs = (let ms = filter (\<lambda>ex. exerciseKey ex = k) exs in
     if k = [] \<or> ms = [] then None
     else Some \<lparr>groupName = trim (name (hd ms)),
                totalVolume = sum_list (map exerciseVolume ms),
                totalReps = sum_list (map exerciseReps ms)\<rparr>)"

text \<open>
  A draft has an exercise, and every exercise of it a set; the invariant of the editor adds
  that the identifiers are distinct.
\<close>

definition nonEmptyDraft :: "ExerciseEntry list \<Rightarrow> bool" where
  "nonEmptyDraft d \<longleftrightarrow> d \<noteq> [] \<and> list_all (\<lambda>ex. sets ex \<noteq> []) d"

definition draftOk :: "ExerciseEntry list \<Rightarrow> bool" where
  "draftOk d \<longleftrightarrow> nonEmptyDraft d \<and> distinct (map exerciseId d)"

section \<open>Example data\<close>

definition benchPress :: ExerciseEntry where
  "benchPress = \<lparr>exerciseId = ''e0'', name = ''Bench Press'',
     sets = [\<lparr>reps = Some 10, weight = Some 40\<rparr>, \<lparr>reps = Some 8, weight = Some 45\<rparr>]\<rparr>"

definition pushDay :: Workout where
  "pushDay = \<lparr>workoutId = ''w0'', date = ''2024-01-01'', workoutName = ''Push Day'',
     exercises = [benchPress], createdAt = ''2024-01-01T10:00:00.000Z''\<rparr>"

definition undatedDay :: Workout where
  "undatedDay = \<lparr>workoutId = ''w3'', date = [], workoutName = ''Legs'',
     exercises = [\<lparr>exerciseId = ''e3'', name = ''Squat'',
                   sets = [\<lparr>reps = Some 5, weight = Some 100\<rparr>]\<rparr>],
     createdAt = ''2024-01-02T10:00:00.000Z''\<rparr>"

definition benchDay1 :: Workout where
  "benchDay1 = \<lparr>workoutId = ''w1'', date = ''2024-01-01'', workoutName = ''Push'',
     exercises = [\<lparr>exerciseId = ''e1'', name = ''Bench'',
                   sets = [\<lparr>reps = Some 10, weight = Some 40\<rparr>]\<rparr>],
     createdAt = ''2024-01-01T10:00:00.000Z''\<rparr>"

definition benchDay2 :: Workout where
  "benchDay2 = \<lparr>workoutId = ''w2'', date = ''2024-01-03'', workoutName = ''Push'',
     exercises = [\<lparr>exerciseId = ''e2'', name = '' bench '',
                   sets = [\<lparr>reps = Some 8, weight = Some 45\<rparr>]\<rparr>],
     createdAt = ''2024-01-03T10:00:00.000Z''\<rparr>"


definition exampleValueOf :: "string \<Rightarrow> number option" where
  "exampleValueOf d =
     (if d = ''2024-01-01'' then Some 1704067200000
      else if d = ''2024-01-03'' then Some 1704240000000
      else None)"

definition exampleFormat :: "string \<Rightarrow> string" where
  "exampleFormat d =
     (if d = ''2024-01-01'' then ''Jan 1''
      else if d = ''2024-01-03'' then ''Jan 3''
      else ''Invalid Date'')"

definition threeDays :: "Workout list" where
  "threeDays = [benchDay1, benchDay2, pushDay]"

text \<open>
  Stand-ins for \<open>JSON.parse\<close> and \<open>JSON.stringify\<close> on the blobs of the examples: the
  texts of the empty list and of the list holding \<open>pushDay\<close>, the text of an object, and
  anything else, which does not parse.
\<close>

definition exampleStringify :: "Workout list \<Rightarrow> string" where
  "exampleStringify items =
     (if items = [] then ''[]'' else if items = [pushDay] then ''[pushDay]'' else ''[other]'')"

definition exampleParse :: "string \<Rightarrow> exn + Workout parsed" where
  "exampleParse raw =
     (if raw = ''[]'' then Inr (JsonArray [])
      else if raw = ''[pushDay]'' then Inr (JsonArray [pushDay])
      else if raw = ''{}'' then Inr JsonOther
      else Inl SyntaxError)"

definition corruptStorage :: "string \<rightharpoonup> string" where
  "corruptStorage = [STORAGE_KEY \<mapsto> ''{not json'']"

definition objectStorage :: "string \<rightharpoonup> string" where
  "objectStorage = [STORAGE_KEY \<mapsto> ''{}'']"

definition draftState :: State where
  "draftState =
     \<lparr>tab = Log, workouts = [benchDay1], draftDate = ''2024-01-03'',
      draftWorkoutName = '' Push Day '',
      draftExercises = [\<lparr>exerciseId = ''e9'', name = '' bench '',
                          sets = [\<lparr>reps = Some 8, weight = Some 45\<rparr>]\<rparr>],
      localStorage = Map.empty, alerts = []\<rparr>"

definition exampleEnv :: Env where
  "exampleEnv = \<lparr>newWorkoutId = ''w9'', nowISO = ''2024-01-03T18:00:00.000Z'',
     today = ''2024-01-04'', newExerciseId = ''e10''\<rparr>"

definition committedWorkout :: Workout where
  "committedWorkout =
     \<lparr>workoutId = ''w9'', date = ''2024-01-03'', workoutName = ''Push Day'',
      exercises = [\<lparr>exerciseId = ''e9'', name = '' bench '',
                     sets = [\<lparr>reps = Some 8, weight = Some 45\<rparr>]\<rparr>],
      createdAt = ''2024-01-03T18:00:00.000Z''\<rparr>"

definition exampleEvents :: "Event list" where
  "exampleEvents =
     [AddExercise ''e2'', AddSet ''e1'', RemoveSet ''e1'' 0, RemoveSet ''e1'' 0,
      RemoveExercise ''e1'', RemoveExercise ''e2'']"

definition oneExercise :: "ExerciseEntry list" where
  "oneExercise = [createExercise ''e1'']"












text \<open>
  A writer that shows the exercise names of the list it writes, each between brackets, for
  reading the storage in the example.
\<close>

definition namesStringify :: "Workout list \<Rightarrow> string" where
  "namesStringify items = concat (map (\<lambda>w. concat (map (\<lambda>ex. ''<'' @ name ex @ ''>'') (exercises w))) items)"

section \<open>Totals of a workout\<close>

lemma foldl_add_sum_list:
  fixes f :: "'a \<Rightarrow> number"
  shows "foldl (\<lambda>s x. s + f x) a xs = a + sum_list (map f xs)"
  by (induction xs arbitrary: a) (simp_all add: add.assoc)


section \<open>The sort is a stable sort by key\<close>

lemma mset_insertBy: "mset (insertBy cmp x xs) = add_mset x (mset xs)"
  by (induction xs) simp_all

lemma mset_sortBy: "mset (sortBy cmp xs) = mset xs"
  unfolding sortBy_def by (induction xs) (simp_all add: mset_insertBy)

lemma insertBy_insort_key:
  fixes f :: "'a \<Rightarrow> number"
  assumes "\<And>y. y \<in> set xs \<Longrightarrow> (cmp x y \<le> 0) = (f x \<le> f y)"
  shows "insertBy cmp x xs = insort_key f x xs"
  using assms by (induction xs) simp_all

lemma set_sortBy: "set (sortBy cmp xs) = set xs"
  using mset_sortBy [of cmp xs] by (metis set_mset_mset)

lemma sortBy_sort_key:
  fixes f :: "'a \<Rightarrow> number"
  assumes "\<And>x y. x \<in> set xs \<Longrightarrow> y \<in> set xs \<Longrightarrow> (cmp x y \<le> 0) = (f x \<le> f y)"
  shows "sortBy cmp xs = sort_key f xs"
  using assms
proof (induction xs)
  case Nil
  show ?case by (simp add: sortBy_def)
next
  case (Cons x xs)
  have ih: "sortBy cmp xs = sort_key f xs"
    using Cons by simp
  have "insertBy cmp x (sortBy cmp xs) = insort_key f x (sortBy cmp xs)"
    by (rule insertBy_insort_key) (simp add: set_sortBy Cons.prems)
  then show ?case
    using ih by (simp add: sortBy_def)
qed

section \<open>Ranking of exercises by volume\<close>

lemma map_of_mapSet: "map_of (mapSet k v m) = (map_of m)(k \<mapsto> v)"
  by (induction m) (auto simp: fun_eq_iff)

lemma keys_mapSet:
  "map fst (mapSet k v m) = (if k \<in> set (map fst m) then map fst m else map fst m @ [k])"
  by (induction m) (auto simp: rev_image_eqI)

lemma foldl_nested:
  "foldl (\<lambda>acc x. foldl f acc (g x)) a xs = foldl f a (concat (map g xs))"
  by (induction xs arbitrary: a) simp_all

lemma byExercise_allExercises: "byExercise ws = foldl addToGroups [] (allExercises ws)"
  unfolding byExercise_def allExercises_def
  by (simp add: foldl_nested)


lemma keys_addToGroups:
  "map fst (addToGroups m ex) =
     (if exerciseKey ex = [] \<or> exerciseKey ex \<in> set (map fst m) then map fst m
      else map fst m @ [exerciseKey ex])"
  by (simp add: addToGroups_def exerciseKey_def Let_def keys_mapSet)

lemma map_of_addToGroups:
  "map_of (addToGroups m ex) k =
     (if exerciseKey ex = k \<and> k \<noteq> [] then
        Some (case map_of m k of
           Some g \<Rightarrow> g\<lparr>totalVolume := totalVolume g + exerciseVolume ex, totalReps := totalReps g + exerciseReps ex\<rparr>
         | None \<Rightarrow> \<lparr>groupName = trim (name ex), totalVolume = exerciseVolume ex, totalReps = exerciseReps ex\<rparr>)
      else map_of m k)"
  by (auto simp: addToGroups_def exerciseKey_def Let_def map_of_mapSet split: option.splits)

lemma map_of_groups: "map_of (foldl addToGroups [] exs) k = groupOf k exs"
proof (induction exs rule: rev_induct)
  case Nil
  show ?case by (simp add: groupOf_def)
next
  case (snoc ex exs)
  show ?case
  proof (cases "exerciseKey ex = k \<and> k \<noteq> []")
    case False
    then show ?thesis
      using snoc by (auto simp: map_of_addToGroups groupOf_def Let_def)
  next
    case True
    then show ?thesis
      using snoc by (auto simp: map_of_addToGroups groupOf_def Let_def split: option.splits if_splits)
  qed
qed

lemma distinct_groups: "distinct (map fst (foldl addToGroups [] exs))"
  by (induction exs rule: rev_induct) (simp_all add: keys_addToGroups)


lemma trim_Bench: "trim ''Bench'' = ''Bench''" "trim '' bench '' = ''bench''"
  by (simp_all add: trim_def isWhiteSpace_def)

lemma lower_Bench: "toLowerCase ''Bench'' = ''bench''" "toLowerCase ''bench'' = ''bench''"
  by code_simp+

lemma exerciseVolume_nested:
  "exerciseVolume = (\<lambda>ex. \<Sum>st\<leftarrow>sets ex. orZero (reps st) * orZero (weight st))"
  by (rule ext) (simp add: exerciseVolume_def foldl_add_sum_list)

lemma exerciseReps_nested: "exerciseReps = (\<lambda>ex. \<Sum>st\<leftarrow>sets ex. orZero (reps st))"
  by (rule ext) (simp add: exerciseReps_def foldl_add_sum_list)







section \<open>History order and time series\<close>

lemma sortedWorkouts_sort_key:
  assumes "validDates valueOf ws"
  shows "sortedWorkouts valueOf ws = sort_key (\<lambda>w. - the (valueOf (date w))) ws"
  unfolding sortedWorkouts_def
proof (rule sortBy_sort_key)
  fix x y assume "x \<in> set ws" "y \<in> set ws"
  then have "valueOf (date x) \<noteq> None" "valueOf (date y) \<noteq> None"
    using assms by (simp_all add: validDates_def)
  then obtain vx vy where "valueOf (date x) = Some vx" "valueOf (date y) = Some vy"
    by blast
  then show "(compareDates valueOf x y \<le> 0) = (- the (valueOf (date x)) \<le> - the (valueOf (date y)))"
    by (simp add: compareDates_def)
qed

lemma sortedWorkouts_descending:
  assumes "validDates valueOf ws"
  shows "sorted_wrt (notBefore valueOf) (sortedWorkouts valueOf ws)"
proof -
  have "sorted (map (\<lambda>w. - the (valueOf (date w))) (sortedWorkouts valueOf ws))"
    unfolding sortedWorkouts_sort_key [OF assms] by (rule sorted_sort_key)
  then have le: "sorted_wrt (\<lambda>a b. the (valueOf (date b)) \<le> the (valueOf (date a))) (sortedWorkouts valueOf ws)"
    by (simp add: sorted_map)
  have mem: "set (sortedWorkouts valueOf ws) = set ws"
    by (simp add: sortedWorkouts_def set_sortBy)
  show ?thesis
  proof (rule sorted_wrt_mono_rel [OF _ le])
    fix x y
    assume "x \<in> set (sortedWorkouts valueOf ws)" "y \<in> set (sortedWorkouts valueOf ws)"
      and xy: "the (valueOf (date y)) \<le> the (valueOf (date x))"
    then have "valueOf (date x) \<noteq> None" "valueOf (date y) \<noteq> None"
      using assms mem by (simp_all add: validDates_def)
    then obtain vx vy where "valueOf (date x) = Some vx" "valueOf (date y) = Some vy"
      by blast
    then show "notBefore valueOf x y"
      using xy by (simp add: notBefore_def)
  qed
qed

lemma notBefore_mostRecentFirst:
  assumes "sorted_wrt (notBefore valueOf) xs"
  shows "mostRecentFirst valueOf xs"
  unfolding mostRecentFirst_def
  by (rule sorted_wrt_mono_rel [OF _ assms]) (simp add: notBefore_def split: option.splits)

text \<open>
  C7, as the code has it. The history order is a permutation of the stored list, whatever
  the dates: every workout occurs in it as often as in the input, so two different workouts
  saved with the same date each appear exactly once. When every date of the list is a date
  that \<open>dayjs\<close> reads, the order is by date with the most recent first.
\<close>

theorem sortedWorkouts_permutation:
  "mset (sortedWorkouts valueOf ws) = mset ws
   \<and> count_list (sortedWorkouts valueOf ws) w = count_list ws w
   \<and> ((\<forall>w \<in> set ws. valueOf (date w) \<noteq> None)
        \<longrightarrow> sorted_wrt (notBefore valueOf) (sortedWorkouts valueOf ws)
          \<and> mostRecentFirst valueOf (sortedWorkouts valueOf ws))
   \<and> (a \<noteq> b \<and> date a = date b
        \<longrightarrow> count_list (sortedWorkouts valueOf [a, b]) a = 1
          \<and> count_list (sortedWorkouts valueOf [a, b]) b = 1)"
proof -
  have m: "\<And>xs. mset (sortedWorkouts valueOf xs) = mset xs"
    by (simp add: sortedWorkouts_def mset_sortBy)
  have c: "\<And>xs x. count_list (sortedWorkouts valueOf xs) x = count_list xs x"
    using m by (metis count_mset)
  have s: "(\<forall>w \<in> set ws. valueOf (date w) \<noteq> None)
        \<longrightarrow> sorted_wrt (notBefore valueOf) (sortedWorkouts valueOf ws)
          \<and> mostRecentFirst valueOf (sortedWorkouts valueOf ws)"
    using sortedWorkouts_descending [of valueOf ws] notBefore_mostRecentFirst
    by (simp add: validDates_def)
  show ?thesis
    using m [of ws] c [of ws w] c [of "[a, b]" a] c [of "[a, b]" b] s by simp
qed

lemma sortedWorkouts_threeDays:
  "sortedWorkouts exampleValueOf threeDays = [benchDay2, benchDay1, pushDay]"
  by (simp add: sortedWorkouts_def sortBy_def threeDays_def compareDates_def exampleValueOf_def
      benchDay1_def benchDay2_def pushDay_def)

theorem sortedWorkouts_permutation_witness:
  "list_all (\<lambda>w. exampleValueOf (date w) \<noteq> None) threeDays
   \<and> sortedWorkouts exampleValueOf threeDays = [benchDay2, benchDay1, pushDay]
   \<and> sorted_wrt (notBefore exampleValueOf) [benchDay2, benchDay1, pushDay]
   \<and> benchDay1 \<noteq> pushDay \<and> date benchDay1 = date pushDay
   \<and> count_list (sortedWorkouts exampleValueOf [benchDay1, pushDay]) benchDay1 = 1
   \<and> count_list (sortedWorkouts exampleValueOf [benchDay1, pushDay]) pushDay = 1"
proof -
  have v: "\<forall>w \<in> set threeDays. exampleValueOf (date w) \<noteq> None"
    by (simp add: threeDays_def exampleValueOf_def benchDay1_def benchDay2_def pushDay_def)
  have d: "benchDay1 \<noteq> pushDay \<and> date benchDay1 = date pushDay"
    by (simp add: benchDay1_def pushDay_def)
  from sortedWorkouts_permutation [of exampleValueOf threeDays benchDay1 benchDay1 pushDay] v d
  have "sorted_wrt (notBefore exampleValueOf) (sortedWorkouts exampleValueOf threeDays)
    \<and> count_list (sortedWorkouts exampleValueOf [benchDay1, pushDay]) benchDay1 = 1
    \<and> count_list (sortedWorkouts exampleValueOf [benchDay1, pushDay]) pushDay = 1"
    by blast
  then show ?thesis
    using v d by (simp add: sortedWorkouts_threeDays list_all_iff)
qed

lemma sortedWorkouts_undated:
  "sortedWorkouts exampleValueOf [benchDay1, undatedDay, benchDay2]
     = [benchDay1, undatedDay, benchDay2]"
  by (simp add: sortedWorkouts_def sortBy_def compareDates_def exampleValueOf_def
      benchDay1_def benchDay2_def undatedDay_def)

text \<open>
  C7 for every list: the order by date fails. The date of a draft is whatever the date input
  holds, the empty string when it is cleared, and nothing checks it at the commit. \<open>dayjs\<close>
  reads no date from the empty string, the comparator then returns NaN, and the sort takes
  the workout for equal to each of its neighbours: between a workout of 1 January and one
  of 3 January it keeps both where they are, the earlier before the later.
\<close>

theorem sortedWorkouts_undated_counterexample:
  "\<not> mostRecentFirst exampleValueOf
       (sortedWorkouts exampleValueOf [benchDay1, undatedDay, benchDay2])"
  unfolding sortedWorkouts_undated
  by (simp add: mostRecentFirst_def exampleValueOf_def benchDay1_def benchDay2_def undatedDay_def)

lemma sumWorkoutVolume_nested:
  "sumWorkoutVolume w = (\<Sum>ex\<leftarrow>exercises w. \<Sum>st\<leftarrow>sets ex. orZero (reps st) * orZero (weight st))"
  by (simp add: sumWorkoutVolume_def foldl_add_sum_list exerciseVolume_nested)

lemma sumWorkoutReps_nested:
  "sumWorkoutReps w = (\<Sum>ex\<leftarrow>exercises w. \<Sum>st\<leftarrow>sets ex. orZero (reps st))"
  by (simp add: sumWorkoutReps_def foldl_add_sum_list exerciseReps_nested)

lemma length_sortedWorkouts: "length (sortedWorkouts valueOf ws) = length ws"
  using mset_sortBy [of "compareDates valueOf" ws]
  by (metis sortedWorkouts_def size_mset)

lemma lineData_pointOf:
  "lineData valueOf format ws = map (pointOf format) (rev (sortedWorkouts valueOf ws))"
  by (simp add: lineData_def pointOf_def sumWorkoutVolume_nested sumWorkoutReps_nested)

lemma notBefore_rev_chronological:
  assumes "sorted_wrt (\<lambda>a b. notBefore valueOf b a) xs"
  shows "chronological valueOf xs"
  unfolding chronological_def
  by (rule sorted_wrt_mono_rel [OF _ assms]) (simp add: notBefore_def split: option.splits)

text \<open>
  C5, as the code has it. For every list the time series of the chart is the list that
  \<open>sortedWorkouts\<close> returns, reversed, each workout mapped to its display date, its volume
  and its reps, in that order: point \<open>i\<close> of the series comes from the workout at position
  \<open>length - 1 - i\<close> of the sorted list, its volume and reps are the sums over the sets of
  that workout, and every workout of the input gives exactly one point. When every date of
  the list is a date that \<open>dayjs\<close> reads, the reversed list is in chronological order.
\<close>

theorem lineData_time_series:
  "lineData valueOf format ws
     = map (\<lambda>w. \<lparr>point_date = format (date w), point_volume = sumWorkoutVolume w,
                  point_reps = sumWorkoutReps w\<rparr>)
         (rev (sortedWorkouts valueOf ws))
   \<and> (\<forall>i < length ws.
         lineData valueOf format ws ! i
           = (let w = sortedWorkouts valueOf ws ! (length ws - 1 - i) in
              \<lparr>point_date = format (date w),
               point_volume = (\<Sum>ex\<leftarrow>exercises w. \<Sum>st\<leftarrow>sets ex. orZero (reps st) * orZero (weight st)),
               point_reps = (\<Sum>ex\<leftarrow>exercises w. \<Sum>st\<leftarrow>sets ex. orZero (reps st))\<rparr>))
   \<and> length (lineData valueOf format ws) = length ws
   \<and> mset (lineData valueOf format ws) = image_mset (pointOf format) (mset ws)
   \<and> ((\<forall>w \<in> set ws. valueOf (date w) \<noteq> None)
        \<longrightarrow> sorted_wrt (\<lambda>a b. notBefore valueOf b a) (rev (sortedWorkouts valueOf ws))
          \<and> chronological valueOf (rev (sortedWorkouts valueOf ws)))"
proof -
  have d: "lineData valueOf format ws
     = map (\<lambda>w. \<lparr>point_date = format (date w), point_volume = sumWorkoutVolume w,
                  point_reps = sumWorkoutReps w\<rparr>)
         (rev (sortedWorkouts valueOf ws))"
    by (simp add: lineData_def)
  have l: "length (lineData valueOf format ws) = length ws"
    by (simp add: lineData_def length_sortedWorkouts)
  have n: "\<forall>i < length ws.
         lineData valueOf format ws ! i
           = (let w = sortedWorkouts valueOf ws ! (length ws - 1 - i) in
              \<lparr>point_date = format (date w),
               point_volume = (\<Sum>ex\<leftarrow>exercises w. \<Sum>st\<leftarrow>sets ex. orZero (reps st) * orZero (weight st)),
               point_reps = (\<Sum>ex\<leftarrow>exercises w. \<Sum>st\<leftarrow>sets ex. orZero (reps st))\<rparr>)"
    by (simp add: lineData_def length_sortedWorkouts rev_nth Let_def
        sumWorkoutVolume_nested sumWorkoutReps_nested)
  have "mset (sortedWorkouts valueOf ws) = mset ws"
    by (simp add: sortedWorkouts_def mset_sortBy)
  then have m: "mset (lineData valueOf format ws) = image_mset (pointOf format) (mset ws)"
    by (simp add: lineData_pointOf)
  have s: "(\<forall>w \<in> set ws. valueOf (date w) \<noteq> None)
        \<longrightarrow> sorted_wrt (\<lambda>a b. notBefore valueOf b a) (rev (sortedWorkouts valueOf ws))
          \<and> chronological valueOf (rev (sortedWorkouts valueOf ws))"
    using sortedWorkouts_descending [of valueOf ws]
      notBefore_rev_chronological [of valueOf "rev (sortedWorkouts valueOf ws)"]
    by (simp add: validDates_def sorted_wrt_rev)
  show ?thesis
    using d n l m s by blast
qed

theorem lineData_time_series_witness:
  "list_all (\<lambda>w. exampleValueOf (date w) \<noteq> None) threeDays
   \<and> lineData exampleValueOf exampleFormat threeDays
       = [\<lparr>point_date = ''Jan 1'', point_volume = 760, point_reps = 18\<rparr>,
          \<lparr>point_date = ''Jan 1'', point_volume = 400, point_reps = 10\<rparr>,
          \<lparr>point_date = ''Jan 3'', point_volume = 360, point_reps = 8\<rparr>]
   \<and> (0::nat) < length threeDays
   \<and> lineData exampleValueOf exampleFormat threeDays ! 0
       = \<lparr>point_date = ''Jan 1'', point_volume = 760, point_reps = 18\<rparr>
   \<and> sorted_wrt (\<lambda>a b. notBefore exampleValueOf b a) [pushDay, benchDay1, benchDay2]
   \<and> chronological exampleValueOf [pushDay, benchDay1, benchDay2]"
proof -
  have v: "\<forall>w \<in> set threeDays. exampleValueOf (date w) \<noteq> None"
    by (simp add: threeDays_def exampleValueOf_def benchDay1_def benchDay2_def pushDay_def)
  have z: "(0::nat) < length threeDays"
    by (simp add: threeDays_def)
  have t: "sumWorkoutVolume pushDay = 760" "sumWorkoutReps pushDay = 18"
    "sumWorkoutVolume benchDay1 = 400" "sumWorkoutReps benchDay1 = 10"
    "sumWorkoutVolume benchDay2 = 360" "sumWorkoutReps benchDay2 = 8"
    by (simp_all add: sumWorkoutVolume_def sumWorkoutReps_def exerciseVolume_def
        exerciseReps_def pushDay_def benchPress_def benchDay1_def benchDay2_def orZero_def)
  have dt: "exampleFormat (date pushDay) = ''Jan 1''" "exampleFormat (date benchDay1) = ''Jan 1''"
    "exampleFormat (date benchDay2) = ''Jan 3''"
    by (simp_all add: exampleFormat_def pushDay_def benchDay1_def benchDay2_def)
  note th = lineData_time_series [of exampleValueOf exampleFormat threeDays]
  from th have e: "lineData exampleValueOf exampleFormat threeDays
       = [\<lparr>point_date = ''Jan 1'', point_volume = 760, point_reps = 18\<rparr>,
          \<lparr>point_date = ''Jan 1'', point_volume = 400, point_reps = 10\<rparr>,
          \<lparr>point_date = ''Jan 3'', point_volume = 360, point_reps = 8\<rparr>]"
    by (simp add: sortedWorkouts_threeDays t dt)
  from th v have "sorted_wrt (\<lambda>a b. notBefore exampleValueOf b a) (rev (sortedWorkouts exampleValueOf threeDays))
      \<and> chronological exampleValueOf (rev (sortedWorkouts exampleValueOf threeDays))"
    by blast
  then have o: "sorted_wrt (\<lambda>a b. notBefore exampleValueOf b a) [pushDay, benchDay1, benchDay2]
      \<and> chronological exampleValueOf [pushDay, benchDay1, benchDay2]"
    by (simp add: sortedWorkouts_threeDays)
  show ?thesis
    using v z e o by (simp add: list_all_iff)
qed

lemma lineData_undated:
  "lineData exampleValueOf exampleFormat [benchDay1, undatedDay, benchDay2]
     = [\<lparr>point_date = ''Jan 3'', point_volume = 360, point_reps = 8\<rparr>,
        \<lparr>point_date = ''Invalid Date'', point_volume = 500, point_reps = 5\<rparr>,
        \<lparr>point_date = ''Jan 1'', point_volume = 400, point_reps = 10\<rparr>]"
proof -
  have t: "sumWorkoutVolume undatedDay = 500" "sumWorkoutReps undatedDay = 5"
    "sumWorkoutVolume benchDay1 = 400" "sumWorkoutReps benchDay1 = 10"
    "sumWorkoutVolume benchDay2 = 360" "sumWorkoutReps benchDay2 = 8"
    by (simp_all add: sumWorkoutVolume_def sumWorkoutReps_def exerciseVolume_def
        exerciseReps_def undatedDay_def benchDay1_def benchDay2_def orZero_def)
  have dt: "exampleFormat (date undatedDay) = ''Invalid Date''"
    "exampleFormat (date benchDay1) = ''Jan 1''" "exampleFormat (date benchDay2) = ''Jan 3''"
    by (simp_all add: exampleFormat_def undatedDay_def benchDay1_def benchDay2_def)
  show ?thesis
    by (simp add: lineData_def sortedWorkouts_undated t dt)
qed

text \<open>
  C5 for every list: the reversed list is not always chronological. With the workout whose
  date is the empty string between those of 1 January and of 3 January, the sort moves
  nothing, and the chart receives the point of 3 January first, then the point without a
  date, then the point of 1 January.
\<close>

theorem lineData_undated_counterexample:
  "lineData exampleValueOf exampleFormat [benchDay1, undatedDay, benchDay2]
     = [\<lparr>point_date = ''Jan 3'', point_volume = 360, point_reps = 8\<rparr>,
        \<lparr>point_date = ''Invalid Date'', point_volume = 500, point_reps = 5\<rparr>,
        \<lparr>point_date = ''Jan 1'', point_volume = 400, point_reps = 10\<rparr>]
   \<and> \<not> chronological exampleValueOf
         (rev (sortedWorkouts exampleValueOf [benchDay1, undatedDay, benchDay2]))"
proof -
  have "\<not> chronological exampleValueOf [benchDay2, undatedDay, benchDay1]"
    by (simp add: chronological_def exampleValueOf_def benchDay1_def benchDay2_def undatedDay_def)
  then show ?thesis
    by (simp add: lineData_undated sortedWorkouts_undated)
qed

section \<open>Loading and saving\<close>

text \<open>
  C2. \<open>loadWorkouts\<close> never raises: whatever the storage holds and whatever the parser
  does, it returns a list. When the blob is absent, does not parse, or parses to a value
  that is not an array, that list is empty.
\<close>

theorem loadWorkouts_fails_open:
  "(\<exists>items. loadWorkouts parse storage = Inr items)
   \<and> (storage STORAGE_KEY = None \<longrightarrow> loadWorkouts parse storage = Inr [])
   \<and> (storage STORAGE_KEY = Some raw \<and> parse raw = Inl e \<longrightarrow> loadWorkouts parse storage = Inr [])
   \<and> (storage STORAGE_KEY = Some raw \<and> parse raw = Inr JsonOther
        \<longrightarrow> loadWorkouts parse storage = Inr [])"
  by (auto simp: loadWorkouts_def loadWorkouts_try_def split: option.splits sum.splits parsed.splits)

theorem loadWorkouts_fails_open_witness:
  "Map.empty STORAGE_KEY = None \<and> loadWorkouts exampleParse Map.empty = Inr []
   \<and> corruptStorage STORAGE_KEY = Some ''{not json'' \<and> exampleParse ''{not json'' = Inl SyntaxError
   \<and> loadWorkouts exampleParse corruptStorage = Inr []
   \<and> objectStorage STORAGE_KEY = Some ''{}'' \<and> exampleParse ''{}'' = Inr JsonOther
   \<and> loadWorkouts exampleParse objectStorage = Inr []"
proof -
  have a: "Map.empty STORAGE_KEY = None"
    by simp
  have b: "corruptStorage STORAGE_KEY = Some ''{not json'' \<and> exampleParse ''{not json'' = Inl SyntaxError"
    by (simp add: corruptStorage_def exampleParse_def)
  have c: "objectStorage STORAGE_KEY = Some ''{}'' \<and> exampleParse ''{}'' = Inr JsonOther"
    by (simp add: objectStorage_def exampleParse_def)
  show ?thesis
    using a b c
      loadWorkouts_fails_open [of exampleParse Map.empty]
      loadWorkouts_fails_open [of exampleParse corruptStorage "''{not json''" SyntaxError]
      loadWorkouts_fails_open [of exampleParse objectStorage "''{}''"]
    by simp
qed



















section \<open>Committing the draft\<close>

lemma trim_examples:
  "trim '' Push Day '' = ''Push Day''" "trim ''   '' = []" "trim [] = []"
  by (simp_all add: trim_def isWhiteSpace_def)

lemma list_ex_blank_iff:
  "list_ex (\<lambda>ex. trim (name ex) = []) d \<longleftrightarrow> (\<exists>ex \<in> set d. trim (name ex) = [])"
  by (simp add: list_ex_iff)

text \<open>
  C3. When the workout name of the draft is blank after trimming, or the name of one of
  its exercises is, the commit does nothing but show a message: the collection, the
  storage, the draft (name, date, exercises with their sets) and the tab stay as they are.
\<close>

theorem blank_name_aborts_commit:
  assumes "trim (draftWorkoutName s) = [] \<or> (\<exists>ex \<in> set (draftExercises s). trim (name ex) = [])"
  shows "(\<exists>msg. handleSaveWorkout stringify env s = s\<lparr>alerts := alerts s @ [msg]\<rparr>)
       \<and> workouts (handleSaveWorkout stringify env s) = workouts s
       \<and> localStorage (handleSaveWorkout stringify env s) = localStorage s
       \<and> draftWorkoutName (handleSaveWorkout stringify env s) = draftWorkoutName s
       \<and> draftDate (handleSaveWorkout stringify env s) = draftDate s
       \<and> draftExercises (handleSaveWorkout stringify env s) = draftExercises s
       \<and> tab (handleSaveWorkout stringify env s) = tab s"
proof (cases "trim (draftWorkoutName s) = []")
  case True
  then have "handleSaveWorkout stringify env s
      = s\<lparr>alerts := alerts s @ [''Please enter a workout name.'']\<rparr>"
    by (simp add: handleSaveWorkout_def)
  then show ?thesis
    by (intro conjI exI [of _ "''Please enter a workout name.''"]) simp_all
next
  case False
  with assms have "list_ex (\<lambda>ex. trim (name ex) = []) (draftExercises s)"
    by (simp add: list_ex_blank_iff)
  with False have "handleSaveWorkout stringify env s
      = s\<lparr>alerts := alerts s @ [''Please enter all exercise names.'']\<rparr>"
    by (simp add: handleSaveWorkout_def)
  then show ?thesis
    by (intro conjI exI [of _ "''Please enter all exercise names.''"]) simp_all
qed

theorem blank_name_aborts_commit_witness:
  "trim (draftWorkoutName (draftState\<lparr>draftWorkoutName := ''   ''\<rparr>)) = []
   \<and> handleSaveWorkout exampleStringify exampleEnv (draftState\<lparr>draftWorkoutName := ''   ''\<rparr>)
       = draftState\<lparr>draftWorkoutName := ''   '', alerts := [''Please enter a workout name.'']\<rparr>
   \<and> workouts (handleSaveWorkout exampleStringify exampleEnv (draftState\<lparr>draftWorkoutName := ''   ''\<rparr>))
       = [benchDay1]
   \<and> localStorage (handleSaveWorkout exampleStringify exampleEnv (draftState\<lparr>draftWorkoutName := ''   ''\<rparr>))
       = Map.empty"
proof -
  let ?s = "draftState\<lparr>draftWorkoutName := ''   ''\<rparr>"
  have b: "trim (draftWorkoutName ?s) = []"
    by (simp add: trim_examples)
  then have h: "trim (draftWorkoutName ?s) = [] \<or> (\<exists>ex \<in> set (draftExercises ?s). trim (name ex) = [])"
    by (rule disjI1)
  have e: "handleSaveWorkout exampleStringify exampleEnv ?s
       = draftState\<lparr>draftWorkoutName := ''   '', alerts := [''Please enter a workout name.'']\<rparr>"
    by (simp add: handleSaveWorkout_def trim_examples draftState_def)
  from blank_name_aborts_commit [OF h, of exampleStringify exampleEnv]
  have "workouts (handleSaveWorkout exampleStringify exampleEnv ?s) = workouts ?s
      \<and> localStorage (handleSaveWorkout exampleStringify exampleEnv ?s) = localStorage ?s"
    by blast
  then show ?thesis
    using b e by (simp add: draftState_def)
qed

text \<open>
  C8. When the draft passes both checks, the commit puts the new workout in front of the
  stored collection, the earlier workouts following unchanged, writes that whole list to
  the storage under the key, and resets the draft to one exercise with an empty name and
  one default set (and an empty workout name and today's date).
\<close>

theorem commit_prepends_and_resets:
  assumes "trim (draftWorkoutName s) \<noteq> []"
    and "\<forall>ex \<in> set (draftExercises s). trim (name ex) \<noteq> []"
  shows "workouts (handleSaveWorkout stringify env s) = newWorkout env s # workouts s
       \<and> localStorage (handleSaveWorkout stringify env s)
           = (localStorage s)(STORAGE_KEY \<mapsto> stringify (newWorkout env s # workouts s))
       \<and> draftExercises (handleSaveWorkout stringify env s)
           = [\<lparr>exerciseId = newExerciseId env, name = [],
               sets = [\<lparr>reps = Some 10, weight = Some 0\<rparr>]\<rparr>]
       \<and> draftWorkoutName (handleSaveWorkout stringify env s) = []
       \<and> draftDate (handleSaveWorkout stringify env s) = today env
       \<and> tab (handleSaveWorkout stringify env s) = History
       \<and> alerts (handleSaveWorkout stringify env s) = alerts s"
proof -
  have "\<not> list_ex (\<lambda>ex. trim (name ex) = []) (draftExercises s)"
    using assms(2) by (simp add: list_ex_blank_iff)
  then show ?thesis
    using assms(1)
    by (simp add: handleSaveWorkout_def Let_def saveWorkouts_def createExercise_def createSet_def)
qed

lemma draftState_valid:
  "trim (draftWorkoutName draftState) \<noteq> []"
  "\<forall>ex \<in> set (draftExercises draftState). trim (name ex) \<noteq> []"
  by (simp_all add: draftState_def trim_examples trim_Bench)

lemma newWorkout_example: "newWorkout exampleEnv draftState = committedWorkout"
  by (simp add: newWorkout_def exampleEnv_def draftState_def committedWorkout_def trim_examples)

theorem commit_prepends_and_resets_witness:
  "trim (draftWorkoutName draftState) \<noteq> []
   \<and> list_all (\<lambda>ex. trim (name ex) \<noteq> []) (draftExercises draftState)
   \<and> workouts (handleSaveWorkout exampleStringify exampleEnv draftState)
       = [committedWorkout, benchDay1]
   \<and> localStorage (handleSaveWorkout exampleStringify exampleEnv draftState) STORAGE_KEY
       = Some (exampleStringify [committedWorkout, benchDay1])
   \<and> draftExercises (handleSaveWorkout exampleStringify exampleEnv draftState)
       = [\<lparr>exerciseId = ''e10'', name = [], sets = [\<lparr>reps = Some 10, weight = Some 0\<rparr>]\<rparr>]"
  using commit_prepends_and_resets [OF draftState_valid, of exampleStringify exampleEnv]
    draftState_valid
  by (simp add: newWorkout_example list_all_iff) (simp add: draftState_def exampleEnv_def)

lemma groupName_first_entry:
  assumes "(k, g) \<in> set (byExercise ws)"
  shows "\<exists>ex rest. matching k ws = ex # rest \<and> groupName g = trim (name ex)"
proof -
  have "map_of (byExercise ws) k = Some g"
    using assms distinct_groups [of "allExercises ws"]
    by (simp add: byExercise_allExercises)
  then have "groupOf k (allExercises ws) = Some g"
    by (simp add: byExercise_allExercises map_of_groups)
  then show ?thesis
    by (auto simp: groupOf_def matching_def Let_def neq_Nil_conv split: if_splits)
qed

text \<open>
  C10. A commit stores the workout name trimmed, and the exercises of the draft exactly as
  they are: every exercise with its identifier, its name (leading and trailing white space
  included) and its sets. That workout is put in front of the collection, and what is
  written to the storage under the key is the text of that same list, the exercise names
  in it as they were typed. Exercise names are trimmed only in the aggregation, where a
  group is shown under the trimmed name of the first entry with its key.
\<close>

theorem commit_stores_exercises_as_entered:
  assumes "trim (draftWorkoutName s) \<noteq> []"
    and "\<forall>ex \<in> set (draftExercises s). trim (name ex) \<noteq> []"
  shows "(\<exists>w. workouts (handleSaveWorkout stringify env s) = w # workouts s
            \<and> localStorage (handleSaveWorkout stringify env s)
                = (localStorage s)(STORAGE_KEY \<mapsto> stringify (w # workouts s))
            \<and> localStorage (handleSaveWorkout stringify env s) STORAGE_KEY
                = Some (stringify (w # workouts s))
            \<and> workoutName w = trim (draftWorkoutName s)
            \<and> exercises w = draftExercises s
            \<and> map name (exercises w) = map name (draftExercises s)
            \<and> date w = draftDate s)
       \<and> ((k, g) \<in> set (byExercise ws)
            \<longrightarrow> (\<exists>ex rest. matching k ws = ex # rest \<and> groupName g = trim (name ex)))"
proof -
  have "\<not> list_ex (\<lambda>ex. trim (name ex) = []) (draftExercises s)"
    using assms(2) by (simp add: list_ex_blank_iff)
  then have "workouts (handleSaveWorkout stringify env s) = newWorkout env s # workouts s"
    and "localStorage (handleSaveWorkout stringify env s)
          = (localStorage s)(STORAGE_KEY \<mapsto> stringify (newWorkout env s # workouts s))"
    using assms(1) by (simp_all add: handleSaveWorkout_def Let_def saveWorkouts_def)
  then have "\<exists>w. workouts (handleSaveWorkout stringify env s) = w # workouts s
            \<and> localStorage (handleSaveWorkout stringify env s)
                = (localStorage s)(STORAGE_KEY \<mapsto> stringify (w # workouts s))
            \<and> localStorage (handleSaveWorkout stringify env s) STORAGE_KEY
                = Some (stringify (w # workouts s))
            \<and> workoutName w = trim (draftWorkoutName s)
            \<and> exercises w = draftExercises s
            \<and> map name (exercises w) = map name (draftExercises s)
            \<and> date w = draftDate s"
    by (intro exI [of _ "newWorkout env s"]) (simp add: newWorkout_def)
  then show ?thesis
    using groupName_first_entry by blast
qed

lemma byExercise_committed:
  "byExercise [committedWorkout, benchDay1]
     = [(''bench'', \<lparr>groupName = ''bench'', totalVolume = 760, totalReps = 18\<rparr>)]"
  by (simp add: committedWorkout_def benchDay1_def byExercise_def addToGroups_def
      trim_Bench lower_Bench Let_def exerciseVolume_def exerciseReps_def orZero_def)

theorem commit_stores_exercises_as_entered_witness:
  "trim (draftWorkoutName draftState) \<noteq> []
   \<and> list_all (\<lambda>ex. trim (name ex) \<noteq> []) (draftExercises draftState)
   \<and> draftWorkoutName draftState = '' Push Day ''
   \<and> map workoutName (workouts (handleSaveWorkout namesStringify exampleEnv draftState))
       = [''Push Day'', ''Push'']
   \<and> map (map name \<circ> exercises) (workouts (handleSaveWorkout namesStringify exampleEnv draftState))
       = [['' bench ''], [''Bench'']]
   \<and> localStorage (handleSaveWorkout namesStringify exampleEnv draftState) STORAGE_KEY
       = Some (namesStringify [committedWorkout, benchDay1])
   \<and> namesStringify [committedWorkout, benchDay1] = ''< bench ><Bench>''
   \<and> (''bench'', \<lparr>groupName = ''bench'', totalVolume = 760, totalReps = 18\<rparr>)
       \<in> set (byExercise [committedWorkout, benchDay1])
   \<and> (\<exists>ex rest. matching ''bench'' [committedWorkout, benchDay1] = ex # rest
         \<and> trim (name ex) = ''bench'')"
proof -
  note th = commit_stores_exercises_as_entered [OF draftState_valid,
      of namesStringify exampleEnv "''bench''"
        "\<lparr>groupName = ''bench'', totalVolume = 760, totalReps = 18\<rparr>"
        "[committedWorkout, benchDay1]"]
  have m: "(''bench'', \<lparr>groupName = ''bench'', totalVolume = 760, totalReps = 18\<rparr>)
       \<in> set (byExercise [committedWorkout, benchDay1])"
    by (simp add: byExercise_committed)
  from th obtain w where w: "workouts (handleSaveWorkout namesStringify exampleEnv draftState)
        = w # workouts draftState"
      "localStorage (handleSaveWorkout namesStringify exampleEnv draftState) STORAGE_KEY
        = Some (namesStringify (w # workouts draftState))"
      "workoutName w = trim (draftWorkoutName draftState)"
      "exercises w = draftExercises draftState"
    by blast
  have c: "workouts (handleSaveWorkout namesStringify exampleEnv draftState)
      = [committedWorkout, benchDay1]"
    using draftState_valid
    by (simp add: handleSaveWorkout_def Let_def list_ex_blank_iff newWorkout_example)
       (simp add: draftState_def)
  then have wc: "w = committedWorkout" "workouts draftState = [benchDay1]"
    using w(1) by simp_all
  from th m have g: "\<exists>ex rest. matching ''bench'' [committedWorkout, benchDay1] = ex # rest
         \<and> trim (name ex) = ''bench''"
    by simp metis
  have d: "draftWorkoutName draftState = '' Push Day ''"
    by (simp add: draftState_def)
  have n: "namesStringify [committedWorkout, benchDay1] = ''< bench ><Bench>''"
    by (simp add: namesStringify_def committedWorkout_def benchDay1_def)
  show ?thesis
    using draftState_valid w(2) wc c m g d n
    by (simp add: list_all_iff) (simp add: committedWorkout_def benchDay1_def)
qed

section \<open>Editing the draft\<close>

lemma removeAt_not_Nil:
  assumes "xs \<noteq> []" and "length xs \<noteq> 1"
  shows "map snd (filter (\<lambda>(i, st). i \<noteq> k) (enumerate 0 xs)) \<noteq> []"
proof -
  obtain a b rest where xs: "xs = a # b # rest"
    using assms by (cases xs; cases "tl xs") auto
  show ?thesis
    unfolding xs by (cases "k = 0") simp_all
qed

lemma filterAt_not_Nil:
  "xs \<noteq> [] \<Longrightarrow> length xs \<noteq> Suc 0 \<Longrightarrow> filter (\<lambda>(i, st). i \<noteq> k) (enumerate 0 xs) \<noteq> []"
  using removeAt_not_Nil [of xs k] by auto

lemma enumerate_Nil_iff: "enumerate n xs = [] \<longleftrightarrow> xs = []"
  by (cases xs) simp_all

lemma filter_other_ids_not_Nil:
  assumes "distinct (map exerciseId prev)" and "prev \<noteq> []" and "length prev \<noteq> 1"
  shows "filter (\<lambda>ex. exerciseId ex \<noteq> eid) prev \<noteq> []"
proof -
  obtain a b rest where prev: "prev = a # b # rest"
    using assms(2,3) by (cases prev; cases "tl prev") auto
  with assms(1) have "exerciseId a \<noteq> exerciseId b"
    by simp
  then show ?thesis
    unfolding prev by (cases "exerciseId a = eid") auto
qed

lemma ids_updateExerciseName: "map exerciseId (updateExerciseName eid nm prev) = map exerciseId prev"
  by (induction prev) (simp_all add: updateExerciseName_def)

lemma ids_addSet: "map exerciseId (addSet eid prev) = map exerciseId prev"
  by (induction prev) (simp_all add: addSet_def)

lemma ids_removeSet: "map exerciseId (removeSet eid i prev) = map exerciseId prev"
  by (induction prev) (simp_all add: removeSet_def)

lemma ids_updateSet: "map exerciseId (updateSet eid i field v prev) = map exerciseId prev"
  by (induction prev) (simp_all add: updateSet_def)

lemma draftOk_updateExerciseName: "draftOk prev \<Longrightarrow> draftOk (updateExerciseName eid nm prev)"
  unfolding draftOk_def nonEmptyDraft_def ids_updateExerciseName
  by (auto simp: updateExerciseName_def list_all_iff)

lemma draftOk_addExercise:
  "draftOk prev \<Longrightarrow> uuid \<notin> set (map exerciseId prev) \<Longrightarrow> draftOk (addExercise uuid prev)"
  by (auto simp: draftOk_def nonEmptyDraft_def addExercise_def createExercise_def)

lemma draftOk_removeExercise: "draftOk prev \<Longrightarrow> draftOk (removeExercise eid prev)"
  using filter_other_ids_not_Nil [of prev eid]
  by (auto simp: draftOk_def nonEmptyDraft_def removeExercise_def list_all_iff distinct_map_filter)

lemma draftOk_addSet: "draftOk prev \<Longrightarrow> draftOk (addSet eid prev)"
  unfolding draftOk_def nonEmptyDraft_def ids_addSet
  by (auto simp: addSet_def list_all_iff)

lemma draftOk_removeSet: "draftOk prev \<Longrightarrow> draftOk (removeSet eid i prev)"
  unfolding draftOk_def nonEmptyDraft_def ids_removeSet
  by (auto simp: removeSet_def list_all_iff filterAt_not_Nil)

lemma draftOk_updateSet: "draftOk prev \<Longrightarrow> draftOk (updateSet eid i field v prev)"
  unfolding draftOk_def nonEmptyDraft_def ids_updateSet
  by (auto simp: updateSet_def list_all_iff enumerate_Nil_iff)

lemma draftOk_createExercise: "draftOk [createExercise uuid]"
  by (simp add: draftOk_def nonEmptyDraft_def createExercise_def)

lemma draftOk_handleSaveWorkout:
  "draftOk (draftExercises s) \<Longrightarrow> draftOk (draftExercises (handleSaveWorkout stringify env s))"
  by (simp add: handleSaveWorkout_def Let_def draftOk_createExercise)

lemma draftOk_handle:
  assumes "draftOk (draftExercises s)"
    and "case e of AddExercise uuid \<Rightarrow> uuid \<notin> set (map exerciseId (draftExercises s)) | _ \<Rightarrow> True"
  shows "draftOk (draftExercises (handle stringify e s))"
proof (cases e)
  case (AddExercise uuid)
  with assms show ?thesis
    by (simp add: draftOk_addExercise)
next
  case (SaveWorkout env)
  with assms show ?thesis
    by (simp add: draftOk_handleSaveWorkout)
next
  case (DeleteWorkout wid)
  with assms show ?thesis
    by (simp add: deleteWorkout_def Let_def)
qed (use assms in \<open>simp_all add: draftOk_updateExerciseName draftOk_removeExercise
      draftOk_addSet draftOk_removeSet draftOk_updateSet\<close>)

lemma draftOk_run:
  "draftOk (draftExercises s) \<Longrightarrow> freshIds stringify es s
     \<Longrightarrow> draftOk (draftExercises (run stringify es s))"
proof (induction es arbitrary: s)
  case Nil
  then show ?case by simp
next
  case (Cons e es)
  from Cons.prems have "draftOk (draftExercises (handle stringify e s))"
    by (intro draftOk_handle) simp_all
  with Cons.prems show ?case
    by (simp add: Cons.IH)
qed

lemma removeSet_one_set:
  "\<forall>ex \<in> set prev. exerciseId ex = eid \<longrightarrow> length (sets ex) = 1 \<Longrightarrow> removeSet eid i prev = prev"
  by (induction prev) (simp_all add: removeSet_def)

text \<open>
  C6. Removal never takes the last element. Removing an exercise from a draft with exactly
  one exercise returns the draft as it is; removing a set from an exercise with exactly one
  set leaves that exercise as it is, and the whole draft when every exercise with the given
  identifier has exactly one set. So after any sequence of actions on the form, from the
  initial draft or from any draft with distinct identifiers that has an exercise and a set
  in every exercise, the draft has at least one exercise and every exercise at least one
  set. The identifiers of added exercises are fresh, as \<open>crypto.randomUUID()\<close> gives them.
\<close>

theorem removal_keeps_last_element:
  "(length prev = 1 \<longrightarrow> removeExercise eid prev = prev)
   \<and> ((\<forall>ex \<in> set prev. exerciseId ex = eid \<longrightarrow> length (sets ex) = 1)
        \<longrightarrow> removeSet eid i prev = prev)
   \<and> (j < length prev \<and> length (sets (prev ! j)) = 1 \<longrightarrow> removeSet eid i prev ! j = prev ! j)
   \<and> (freshIds stringify es (initialState items storage todayStr uuid)
        \<longrightarrow> nonEmptyDraft
              (draftExercises (run stringify es (initialState items storage todayStr uuid))))
   \<and> (nonEmptyDraft (draftExercises s) \<and> distinct (map exerciseId (draftExercises s))
        \<and> freshIds stringify es s
        \<longrightarrow> nonEmptyDraft (draftExercises (run stringify es s)))"
proof -
  have a: "length prev = 1 \<longrightarrow> removeExercise eid prev = prev"
    by (simp add: removeExercise_def)
  have b: "(\<forall>ex \<in> set prev. exerciseId ex = eid \<longrightarrow> length (sets ex) = 1)
        \<longrightarrow> removeSet eid i prev = prev"
    using removeSet_one_set by blast
  have c: "j < length prev \<and> length (sets (prev ! j)) = 1 \<longrightarrow> removeSet eid i prev ! j = prev ! j"
    by (simp add: removeSet_def)
  have "draftOk (draftExercises (initialState items storage todayStr uuid))"
    by (simp add: initialState_def draftOk_createExercise)
  then have d: "freshIds stringify es (initialState items storage todayStr uuid)
        \<longrightarrow> nonEmptyDraft
              (draftExercises (run stringify es (initialState items storage todayStr uuid)))"
    using draftOk_run [of "initialState items storage todayStr uuid" stringify es]
    by (simp add: draftOk_def)
  have e: "nonEmptyDraft (draftExercises s) \<and> distinct (map exerciseId (draftExercises s))
        \<and> freshIds stringify es s
        \<longrightarrow> nonEmptyDraft (draftExercises (run stringify es s))"
    using draftOk_run [of s stringify es] by (simp add: draftOk_def)
  show ?thesis
    using a b c d e by blast
qed

lemma run_exampleEvents:
  "draftExercises (run exampleStringify exampleEvents (initialState [] Map.empty ''2024-01-01'' ''e1''))
     = [createExercise ''e2'']"
  by (simp add: exampleEvents_def initialState_def addExercise_def addSet_def removeSet_def
      removeExercise_def createExercise_def createSet_def)

lemma fresh_exampleEvents:
  "freshIds exampleStringify exampleEvents (initialState [] Map.empty ''2024-01-01'' ''e1'')"
  by (simp add: exampleEvents_def initialState_def addExercise_def addSet_def removeSet_def
      removeExercise_def createExercise_def createSet_def)

theorem removal_keeps_last_element_witness:
  "length oneExercise = 1 \<and> removeExercise ''e1'' oneExercise = oneExercise
   \<and> list_all (\<lambda>ex. exerciseId ex = ''e1'' \<and> length (sets ex) = 1) oneExercise
   \<and> removeSet ''e1'' 0 oneExercise = oneExercise
   \<and> freshIds exampleStringify exampleEvents (initialState [] Map.empty ''2024-01-01'' ''e1'')
   \<and> draftExercises (run exampleStringify exampleEvents (initialState [] Map.empty ''2024-01-01'' ''e1''))
       = [createExercise ''e2'']
   \<and> nonEmptyDraft
       (draftExercises (run exampleStringify exampleEvents (initialState [] Map.empty ''2024-01-01'' ''e1'')))"
proof -
  have l: "length oneExercise = 1"
    by (simp add: oneExercise_def)
  have o: "\<forall>ex \<in> set oneExercise. exerciseId ex = ''e1'' \<longrightarrow> length (sets ex) = 1"
    by (simp add: oneExercise_def createExercise_def)
  have o': "list_all (\<lambda>ex. exerciseId ex = ''e1'' \<and> length (sets ex) = 1) oneExercise"
    by (simp add: oneExercise_def createExercise_def)
  note th1 = removal_keeps_last_element [of oneExercise "''e1''" 0 0 exampleStringify exampleEvents
      "[]" Map.empty "''2024-01-01''" "''e1''"]
  from th1 l have r1: "removeExercise ''e1'' oneExercise = oneExercise"
    by blast
  from th1 o have r2: "removeSet ''e1'' 0 oneExercise = oneExercise"
    by blast
  from th1 fresh_exampleEvents have r3: "nonEmptyDraft
       (draftExercises (run exampleStringify exampleEvents (initialState [] Map.empty ''2024-01-01'' ''e1'')))"
    by blast
  show ?thesis
    using l o' r1 r2 r3 fresh_exampleEvents run_exampleEvents by simp
qed

end
